theory Spec2Isabelle
  imports Main
begin

section \<open>Recipe Finder: a shallow embedding of \<^verbatim>\<open>src/agent.ts\<close>\<close>

text \<open>
  The module builds the launch arguments of the browser tool server, assembles the
  options record handed to the agent runtime, and relays the runtime's message stream as
  a sequence of events. Each definition below follows one declaration of the source and
  keeps its name.
\<close>

subsection \<open>The process environment\<close>

text \<open>
  \<^verbatim>\<open>process.env\<close> maps variable names to strings; reading a variable that is not set
  gives \<^verbatim>\<open>undefined\<close>, here \<open>None\<close>.
\<close>

type_synonym process_env = "string \<rightharpoonup> string"

subsection \<open>Launch parameters of the tool server\<close>

text \<open>The local constant \<^verbatim>\<open>baseArgs\<close> of \<^verbatim>\<open>buildChromeDevToolsArgs\<close>.\<close>

definition baseArgs :: "string list" where
  "baseArgs =
     [''-y'',
      ''chrome-devtools-mcp@latest'',
      ''--headless'',
      ''--isolated'',
      ''--no-category-emulation'',
      ''--no-category-performance'',
      ''--no-category-network'']"

text \<open>
  \<^verbatim>\<open>const isContainer = process.env.CHROME_PATH === "/usr/bin/chromium"\<close>: strict
  equality with a string, so an unset variable and any other value are both false.
\<close>

definition isContainer :: "process_env \<Rightarrow> bool" where
  "isContainer e = (e ''CHROME_PATH'' = Some ''/usr/bin/chromium'')"

definition buildChromeDevToolsArgs :: "process_env \<Rightarrow> string list" where
  "buildChromeDevToolsArgs e =
     (if isContainer e then
        baseArgs @
        [''--executable-path=/usr/bin/chromium'',
         ''--chrome-arg=--no-sandbox'',
         ''--chrome-arg=--disable-setuid-sandbox'',
         ''--chrome-arg=--disable-dev-shm-usage'',
         ''--chrome-arg=--disable-gpu'']
      else baseArgs)"

text \<open>
  \<^verbatim>\<open>McpServerConfig\<close>, in its \<^verbatim>\<open>stdio\<close> form: how the agent runtime starts a tool server.
\<close>

record mcp_config =
  mcp_type :: string
  mcp_command :: string
  mcp_args :: "string list"

text \<open>
  \<^verbatim>\<open>CHROME_DEVTOOLS_MCP_CONFIG\<close> is a module-level constant: its \<^verbatim>\<open>args\<close> are built once,
  from the environment at the time the module is loaded. That environment is the
  parameter \<open>e0\<close>.
\<close>

definition CHROME_DEVTOOLS_MCP_CONFIG :: "process_env \<Rightarrow> mcp_config" where
  "CHROME_DEVTOOLS_MCP_CONFIG e0 =
     \<lparr> mcp_type = ''stdio'',
       mcp_command = ''npx'',
       mcp_args = buildChromeDevToolsArgs e0 \<rparr>"

subsection \<open>Capability declaration and operating procedure\<close>

definition ALLOWED_TOOLS :: "string list" where
  "ALLOWED_TOOLS =
     [''mcp__chrome-devtools__click'',
      ''mcp__chrome-devtools__fill'',
      ''mcp__chrome-devtools__fill_form'',
      ''mcp__chrome-devtools__hover'',
      ''mcp__chrome-devtools__press_key'',
      ''mcp__chrome-devtools__navigate_page'',
      ''mcp__chrome-devtools__new_page'',
      ''mcp__chrome-devtools__list_pages'',
      ''mcp__chrome-devtools__select_page'',
      ''mcp__chrome-devtools__close_page'',
      ''mcp__chrome-devtools__wait_for'',
      ''mcp__chrome-devtools__take_screenshot'',
      ''mcp__chrome-devtools__take_snapshot'']"

text \<open>
  The template literal \<^verbatim>\<open>SYSTEM_PROMPT\<close>, one list element per line of the source. The
  escaped backquotes of the literal stand for plain backquotes, and the characters of the
  file outside ASCII are given by their UTF-8 bytes.
\<close>

definition SYSTEM_PROMPT :: string where
  "SYSTEM_PROMPT = concat
     [
      ''You are a Recipe Finder agent with browser automation capabilities, specialized in searching AllRecipes.com and presenting recipes in a clean, usable format.\<newline>'',
      ''\<newline>'',
      ''## Your Mission\<newline>'',
      ''Help users discover recipes from AllRecipes by searching, navigating, and extracting recipe information including ingredients, instructions, cook times, and ratings.\<newline>'',
      ''\<newline>'',
      ''## Step-by-Step Strategy\<newline>'',
      ''\<newline>'',
      ''1. **Navigate to AllRecipes**\<newline>'',
      ''   - Use navigate_page to go to https://www.allrecipes.com\<newline>'',
      ''   - Wait for the page to load completely\<newline>'',
      ''\<newline>'',
      ''2. **Handle Cookie Banners/Popups**\<newline>'',
      ''   - Take a snapshot to check for cookie consent banners or modal dialogs\<newline>'',
      ''   - If present, click accept/dismiss buttons to clear them\<newline>'',
      ''\<newline>'',
      ''3. **Search for Recipes**\<newline>'',
      ''   - Use take_snapshot to locate the search input field\<newline>'',
      ''   - Use fill to enter the user's search query into the search box\<newline>'',
      ''   - Use press_key to submit (press \"Enter\") or click the search button\<newline>'',
      ''   - Wait for search results to load\<newline>'',
      ''\<newline>'',
      ''4. **Browse Search Results**\<newline>'',
      ''   - Use take_snapshot to see the search results structure\<newline>'',
      ''   - Identify promising recipe cards based on ratings, reviews, and titles\<newline>'',
      ''   - Use click to select a recipe that matches the user's request\<newline>'',
      ''   - If the first result isn't suitable, inform the user and try another\<newline>'',
      ''\<newline>'',
      ''5. **Extract Recipe Information**\<newline>'',
      ''   - Once on a recipe page, use take_snapshot to analyze the page structure\<newline>'',
      ''   - Extract the following information:\<newline>'',
      ''     * Recipe title\<newline>'',
      ''     * Rating (stars/score)\<newline>'',
      ''     * Number of reviews\<newline>'',
      ''     * Prep time, cook time, total time\<newline>'',
      ''     * Servings/yield\<newline>'',
      ''     * Ingredients list (with quantities and measurements)\<newline>'',
      ''     * Step-by-step instructions\<newline>'',
      ''     * Any notes or tips from the author\<newline>'',
      ''   - Use take_screenshot if the user wants to see the recipe visually\<newline>'',
      ''\<newline>'',
      ''6. **Handle Multiple Recipes**\<newline>'',
      ''   - If the user wants to compare multiple recipes, open them in new tabs using new_page\<newline>'',
      ''   - Use list_pages and select_page to switch between recipes\<newline>'',
      ''   - Present a comparison of key details\<newline>'',
      ''\<newline>'',
      ''## Error Handling\<newline>'',
      ''\<newline>'',
      ''- **No Results Found**: Suggest alternative search terms or broader queries\<newline>'',
      ''- **Page Load Issues**: Retry navigation or wait longer with wait_for\<newline>'',
      ''- **Recipe Format Changes**: Adapt by taking snapshots and identifying elements by common patterns\<newline>'',
      ''- **Paywalls/Login Requirements**: Inform the user if a recipe requires account access\<newline>'',
      ''\<newline>'',
      ''## Output Format\<newline>'',
      ''\<newline>'',
      ''Present recipes in this clean format:\<newline>'',
      ''\<newline>'',
      ''```\<newline>'',
      ''**[Recipe Title]**\<newline>'',
      [CHR 0xE2, CHR 0x80, CHR 0x9A, CHR 0xE2, CHR 0x89, CHR 0xA0, CHR 0xC3, CHR 0xAA] @ '' Rating: [X.X/5] ([XXX] reviews)\<newline>'',
      ''\<newline>'',
      [CHR 0xE2, CHR 0x80, CHR 0x9A, CHR 0xC3, CHR 0xA8, CHR 0xC2, CHR 0xB1, CHR 0xC3, CHR 0x94, CHR 0xE2, CHR 0x88, CHR 0x8F, CHR 0xC3, CHR 0xA8] @ '' **Times:**\<newline>'',
      ''- Prep: [X minutes]\<newline>'',
      ''- Cook: [X minutes]\<newline>'',
      ''- Total: [X minutes]\<newline>'',
      ''- Servings: [X]\<newline>'',
      ''\<newline>'',
      [CHR 0xEF, CHR 0xA3, CHR 0xBF, CHR 0xC3, CHR 0xBC, CHR 0xC3, CHR 0xAC, CHR 0xC3, CHR 0xB9] @ '' **Ingredients:**\<newline>'',
      ''- [quantity] [unit] [ingredient]\<newline>'',
      ''- [quantity] [unit] [ingredient]\<newline>'',
      ''...\<newline>'',
      ''\<newline>'',
      [CHR 0xEF, CHR 0xA3, CHR 0xBF, CHR 0xC3, CHR 0xBC, CHR 0xC3, CHR 0xAB, CHR 0xC2, CHR 0xAE, CHR 0xE2, CHR 0x80, CHR 0x9A, CHR 0xC3, CHR 0x84, CHR 0xC3, CHR 0xA7, CHR 0xEF, CHR 0xA3, CHR 0xBF, CHR 0xC3, CHR 0xBC, CHR 0xC3, CHR 0xA7, CHR 0xE2, CHR 0x89, CHR 0xA5] @ '' **Instructions:**\<newline>'',
      ''1. [Step one]\<newline>'',
      ''2. [Step two]\<newline>'',
      ''3. [Step three]\<newline>'',
      ''...\<newline>'',
      ''\<newline>'',
      [CHR 0xEF, CHR 0xA3, CHR 0xBF, CHR 0xC3, CHR 0xBC, CHR 0xC3, CHR 0xAD, CHR 0xC2, CHR 0xB0] @ '' **Tips:** [Any helpful notes or tips]\<newline>'',
      ''```\<newline>'',
      ''\<newline>'',
      ''## Best Practices\<newline>'',
      ''\<newline>'',
      ''- Always take snapshots before clicking to ensure accurate element targeting\<newline>'',
      ''- Be patient with page loads - AllRecipes has ads and dynamic content\<newline>'',
      ''- Prioritize highly-rated recipes unless user specifies otherwise\<newline>'',
      ''- If extracting ingredients, preserve exact measurements and order\<newline>'',
      ''- Offer to find alternative recipes if the first one doesn't meet user needs\<newline>'',
      ''- Provide the recipe URL so users can bookmark or share it\<newline>'',
      ''\<newline>'',
      ''## URL Patterns\<newline>'',
      ''\<newline>'',
      ''- Homepage: https://www.allrecipes.com\<newline>'',
      ''- Search: https://www.allrecipes.com/search?q=[query]\<newline>'',
      ''- Recipe pages: https://www.allrecipes.com/recipe/[id]/[recipe-name]/\<newline>'',
      ''\<newline>'',
      ''Remember: Your goal is to make recipe discovery effortless and present information in a format that's immediately useful for cooking.'']"

subsection \<open>The options record\<close>

text \<open>
  The fields of \<^verbatim>\<open>Options\<close> that \<^verbatim>\<open>getOptions\<close> sets. The key \<^verbatim>\<open>mcpServers\<close> is optional:
  \<open>None\<close> is a record without that key, \<open>Some m\<close> a record whose key holds the
  object \<open>m\<close>, a map from tool-server names to launch configurations.
\<close>

record options =
  env :: process_env
  systemPrompt :: string
  model :: string
  allowedTools :: "string list"
  maxTurns :: int
  mcpServers :: "(string \<rightharpoonup> mcp_config) option"

text \<open>
  \<^verbatim>\<open>getOptions(standalone = false)\<close>. The spread \<^verbatim>\<open>...(standalone && {mcpServers: ...})\<close>
  adds the key when \<^verbatim>\<open>standalone\<close> is true and adds nothing when it is false. The
  argument \<open>e\<close> is \<^verbatim>\<open>process.env\<close> at the time of the call, which the record copies.
\<close>

definition getOptions :: "process_env \<Rightarrow> process_env \<Rightarrow> bool \<Rightarrow> options" where
  "getOptions e0 e standalone =
     \<lparr> env = e,
       systemPrompt = SYSTEM_PROMPT,
       model = ''haiku'',
       allowedTools = ALLOWED_TOOLS,
       maxTurns = 50,
       mcpServers =
         (if standalone then Some [''chrome-devtools'' \<mapsto> CHROME_DEVTOOLS_MCP_CONFIG e0]
          else None) \<rparr>"

subsection \<open>Runtime messages\<close>

text \<open>
  The relay reads the runtime's messages through \<^verbatim>\<open>any\<close>, so every field it looks at may
  be absent. A content block has a \<^verbatim>\<open>type\<close>, and, depending on it, a \<^verbatim>\<open>text\<close>, or a
  \<^verbatim>\<open>name\<close> and an \<^verbatim>\<open>input\<close> (the arguments of a tool invocation, a JSON value).
\<close>

datatype json =
    JNull
  | JBool bool
  | JNum int
  | JStr string
  | JArr "json list"
  | JObj "(string \<times> json) list"

record block =
  block_type :: string
  block_text :: "string option"
  block_name :: "string option"
  block_input :: "json option"

record usage =
  input_tokens :: "int option"
  output_tokens :: "int option"

text \<open>The inner \<^verbatim>\<open>message\<close> object of a runtime message.\<close>

record api_message =
  content :: "block list option"
  usage :: "usage option"

text \<open>A runtime message: its \<^verbatim>\<open>type\<close>, its \<^verbatim>\<open>message\<close> and its \<^verbatim>\<open>result\<close>.\<close>

record sdk_message =
  msg_type :: string
  msg_message :: "api_message option"
  msg_result :: "string option"

subsection \<open>Relay events\<close>

text \<open>
  The objects the relay yields. A \<^verbatim>\<open>tool\<close> event holds \<^verbatim>\<open>block.name\<close> as it is, also when
  the block has no name.
\<close>

datatype event =
    TextEvent string
  | ToolEvent "string option"
  | UsageEvent int int
  | ResultEvent string
  | DoneEvent

subsection \<open>Generators\<close>

text \<open>
  A finite run of an (async) generator: it yields a value and goes on, or returns, or
  throws. The errors are values of any type \<open>'e\<close>.
\<close>

datatype ('a, 'e) gen =
    Return
  | Throw 'e
  | Yield 'a "('a, 'e) gen"

text \<open>The values a run yields, in order, and the error it ends with, if any.\<close>

fun yielded :: "('a, 'e) gen \<Rightarrow> 'a list" where
  "yielded Return = []"
| "yielded (Throw x) = []"
| "yielded (Yield a g) = a # yielded g"

fun thrown :: "('a, 'e) gen \<Rightarrow> 'e option" where
  "thrown Return = None"
| "thrown (Throw x) = Some x"
| "thrown (Yield a g) = thrown g"

text \<open>Yielding the elements of a list one after the other, then going on as \<open>g\<close>.\<close>

fun yieldAll :: "'a list \<Rightarrow> ('a, 'e) gen \<Rightarrow> ('a, 'e) gen" where
  "yieldAll [] g = g"
| "yieldAll (a # as) g = Yield a (yieldAll as g)"

subsection \<open>The event relay\<close>

text \<open>
  \<^verbatim>\<open>x || 0\<close> on a counter: the counter unless it is absent or zero, and zero then.
\<close>

definition orZero :: "int option \<Rightarrow> int" where
  "orZero x = (case x of None \<Rightarrow> 0 | Some n \<Rightarrow> if n = 0 then 0 else n)"

text \<open>\<^verbatim>\<open>(message as any).message?.content\<close> and \<^verbatim>\<open>(message as any).message?.usage\<close>.\<close>

definition messageContent :: "sdk_message \<Rightarrow> block list option" where
  "messageContent m = (case msg_message m of None \<Rightarrow> None | Some a \<Rightarrow> content a)"

definition messageUsage :: "sdk_message \<Rightarrow> usage option" where
  "messageUsage m = (case msg_message m of None \<Rightarrow> None | Some a \<Rightarrow> usage a)"

text \<open>
  The first inner loop: a block yields a \<^verbatim>\<open>text\<close> event when its type is \<^verbatim>\<open>text\<close> and its
  text is truthy, that is present and not the empty string.
\<close>

fun textEvents :: "block list \<Rightarrow> event list" where
  "textEvents [] = []"
| "textEvents (b # bs) =
     (if block_type b = ''text'' then
        (case block_text b of
           None \<Rightarrow> []
         | Some t \<Rightarrow> if t = [] then [] else [TextEvent t])
      else []) @ textEvents bs"

text \<open>The second inner loop: a block of type \<^verbatim>\<open>tool_use\<close> yields a \<^verbatim>\<open>tool\<close> event.\<close>

fun toolEvents :: "block list \<Rightarrow> event list" where
  "toolEvents [] = []"
| "toolEvents (b # bs) =
     (if block_type b = ''tool_use'' then [ToolEvent (block_name b)] else []) @ toolEvents bs"

text \<open>
  The body of the \<^verbatim>\<open>for await\<close> loop, for one message: the four \<^verbatim>\<open>if\<close> statements in the
  order of the source.
\<close>

definition relayMessage :: "sdk_message \<Rightarrow> event list" where
  "relayMessage m =
     (if msg_type m = ''assistant'' then
        (case messageContent m of None \<Rightarrow> [] | Some bs \<Rightarrow> textEvents bs)
      else [])
     @
     (if msg_type m = ''assistant'' then
        (case messageContent m of None \<Rightarrow> [] | Some bs \<Rightarrow> toolEvents bs)
      else [])
     @
     (case messageUsage m of
        None \<Rightarrow> []
      | Some u \<Rightarrow> [UsageEvent (orZero (input_tokens u)) (orZero (output_tokens u))])
     @
     (case msg_result m of
        None \<Rightarrow> []
      | Some r \<Rightarrow> if r = [] then [] else [ResultEvent r])"

text \<open>
  The \<^verbatim>\<open>for await\<close> loop over the runtime's stream, and the \<^verbatim>\<open>yield\<close> after it: when the
  stream ends the relay yields \<^verbatim>\<open>done\<close> and returns; when the stream throws, nothing
  catches the error and the relay throws it.
\<close>

fun relay :: "(sdk_message, 'e) gen \<Rightarrow> (event, 'e) gen" where
  "relay Return = Yield DoneEvent Return"
| "relay (Throw x) = Throw x"
| "relay (Yield m g) = yieldAll (relayMessage m) (relay g)"

text \<open>
  \<^verbatim>\<open>streamAgent(prompt)\<close>. The runtime's \<^verbatim>\<open>query\<close> is a parameter: given the prompt and the
  options it produces the stream of messages.
\<close>

definition streamAgent ::
  "(string \<Rightarrow> options \<Rightarrow> (sdk_message, 'e) gen) \<Rightarrow> process_env \<Rightarrow> process_env \<Rightarrow> string
     \<Rightarrow> (event, 'e) gen" where
  "streamAgent query e0 e prompt = relay (query prompt (getOptions e0 e True))"


subsection \<open>Event kinds\<close>

text \<open>The \<^verbatim>\<open>type\<close> tag of an event, as three tests.\<close>

fun isText :: "event \<Rightarrow> bool" where
  "isText (TextEvent t) = True"
| "isText ev = False"

fun isTool :: "event \<Rightarrow> bool" where
  "isTool (ToolEvent n) = True"
| "isTool ev = False"

fun isUsage :: "event \<Rightarrow> bool" where
  "isUsage (UsageEvent i out) = True"
| "isUsage ev = False"

subsection \<open>Example inputs\<close>

text \<open>An environment of a container: only \<^verbatim>\<open>CHROME_PATH\<close> is set, to the chromium path.\<close>

definition containerEnv :: process_env where
  "containerEnv = [''CHROME_PATH'' \<mapsto> ''/usr/bin/chromium'']"

text \<open>
  Messages as the runtime sends them: a text block and a tool-invocation block, an
  assistant message holding content blocks, a message holding usage counters only, and
  the final result message.
\<close>

definition textBlock :: "string \<Rightarrow> block" where
  "textBlock t =
     \<lparr> block_type = ''text'', block_text = Some t, block_name = None, block_input = None \<rparr>"

definition toolUseBlock :: "string \<Rightarrow> json \<Rightarrow> block" where
  "toolUseBlock n args =
     \<lparr> block_type = ''tool_use'', block_text = None, block_name = Some n,
       block_input = Some args \<rparr>"

definition assistantMessage :: "block list \<Rightarrow> sdk_message" where
  "assistantMessage bs =
     \<lparr> msg_type = ''assistant'',
       msg_message = Some \<lparr> content = Some bs, usage = None \<rparr>,
       msg_result = None \<rparr>"

definition usageMessage :: "string \<Rightarrow> int option \<Rightarrow> int option \<Rightarrow> sdk_message" where
  "usageMessage ty i out =
     \<lparr> msg_type = ty,
       msg_message =
         Some \<lparr> content = None, usage = Some \<lparr> input_tokens = i, output_tokens = out \<rparr> \<rparr>,
       msg_result = None \<rparr>"

definition resultMessage :: "string \<Rightarrow> sdk_message" where
  "resultMessage r = \<lparr> msg_type = ''result'', msg_message = None, msg_result = Some r \<rparr>"

text \<open>
  A message of type \<^verbatim>\<open>user\<close> whose content holds one tool-invocation block: the message
  type of the runtime allows it, since the content of a user message is a list of content
  blocks as well.
\<close>

definition userToolMessage :: sdk_message where
  "userToolMessage =
     \<lparr> msg_type = ''user'',
       msg_message =
         Some \<lparr> content =
                  Some [toolUseBlock ''mcp__chrome-devtools__click''
                          (JObj [(''uid'', JStr ''1_7'')])],
                usage = None \<rparr>,
       msg_result = None \<rparr>"

text \<open>
  A run of the runtime with four messages: two text blocks, one tool invocation, the
  usage counters 10 and 5, and the result \<^verbatim>\<open>Found 3 recipes\<close>.
\<close>

definition simulatedStream :: "(sdk_message, string) gen" where
  "simulatedStream =
     Yield (assistantMessage [textBlock ''Searching AllRecipes'', textBlock ''for lasagna''])
       (Yield (assistantMessage
                [toolUseBlock ''mcp__chrome-devtools__navigate_page''
                   (JObj [(''url'', JStr ''https://www.allrecipes.com'')])])
         (Yield (usageMessage ''assistant'' (Some 10) (Some 5))
           (Yield (resultMessage ''Found 3 recipes'') Return)))"

section \<open>Properties\<close>

subsection \<open>Launch-Parameter Builder\<close>

lemma isContainer_containerEnv: "isContainer containerEnv"
  by (simp add: isContainer_def containerEnv_def)

text \<open>
  Claim C1, as the specification words it: in a container the output is the base flag
  sequence followed by exactly four flags. The source appends five tokens (the explicit
  executable path and then four \<^verbatim>\<open>--chrome-arg\<close> flags), so the output is one token longer
  than the claim allows, and it is not the base sequence followed by the four
  sandbox-disabling flags.
\<close>

theorem container_args_not_base_plus_four:
  "length (buildChromeDevToolsArgs containerEnv) \<noteq> length baseArgs + 4 \<and>
   buildChromeDevToolsArgs containerEnv \<noteq>
     baseArgs @
     [''--chrome-arg=--no-sandbox'',
      ''--chrome-arg=--disable-setuid-sandbox'',
      ''--chrome-arg=--disable-dev-shm-usage'',
      ''--chrome-arg=--disable-gpu'']"
  by (simp add: buildChromeDevToolsArgs_def isContainer_containerEnv baseArgs_def)

text \<open>
  Claim C1, amended: whenever \<^verbatim>\<open>CHROME_PATH\<close> equals \<^verbatim>\<open>/usr/bin/chromium\<close>, the output is
  the seven base flags followed by exactly five flags in fixed order (the explicit
  executable path, then the four flags that disable the sandbox, the setuid sandbox,
  shared-memory usage and the GPU), and no token occurs twice.
\<close>

theorem container_args_base_plus_five:
  assumes "e ''CHROME_PATH'' = Some ''/usr/bin/chromium''"
  shows "buildChromeDevToolsArgs e =
           baseArgs @
           [''--executable-path=/usr/bin/chromium'',
            ''--chrome-arg=--no-sandbox'',
            ''--chrome-arg=--disable-setuid-sandbox'',
            ''--chrome-arg=--disable-dev-shm-usage'',
            ''--chrome-arg=--disable-gpu''] \<and>
         buildChromeDevToolsArgs e =
           [''-y'',
            ''chrome-devtools-mcp@latest'',
            ''--headless'',
            ''--isolated'',
            ''--no-category-emulation'',
            ''--no-category-performance'',
            ''--no-category-network'',
            ''--executable-path=/usr/bin/chromium'',
            ''--chrome-arg=--no-sandbox'',
            ''--chrome-arg=--disable-setuid-sandbox'',
            ''--chrome-arg=--disable-dev-shm-usage'',
            ''--chrome-arg=--disable-gpu''] \<and>
         length (buildChromeDevToolsArgs e) = length baseArgs + 5 \<and>
         distinct (buildChromeDevToolsArgs e)"
proof -
  have c: "isContainer e"
    using assms by (simp add: isContainer_def)
  have shape: "buildChromeDevToolsArgs e =
           baseArgs @
           [''--executable-path=/usr/bin/chromium'',
            ''--chrome-arg=--no-sandbox'',
            ''--chrome-arg=--disable-setuid-sandbox'',
            ''--chrome-arg=--disable-dev-shm-usage'',
            ''--chrome-arg=--disable-gpu'']"
    using c by (simp add: buildChromeDevToolsArgs_def)
  have "distinct (buildChromeDevToolsArgs e)"
    unfolding shape baseArgs_def by simp
  with shape show ?thesis
    by (simp add: baseArgs_def)
qed

theorem container_args_base_plus_five_witness:
  "buildChromeDevToolsArgs
     [''HOME'' \<mapsto> ''/root'', ''CHROME_PATH'' \<mapsto> ''/usr/bin/chromium''] =
     [''-y'',
      ''chrome-devtools-mcp@latest'',
      ''--headless'',
      ''--isolated'',
      ''--no-category-emulation'',
      ''--no-category-performance'',
      ''--no-category-network'',
      ''--executable-path=/usr/bin/chromium'',
      ''--chrome-arg=--no-sandbox'',
      ''--chrome-arg=--disable-setuid-sandbox'',
      ''--chrome-arg=--disable-dev-shm-usage'',
      ''--chrome-arg=--disable-gpu''] \<and>
   distinct (buildChromeDevToolsArgs
     [''HOME'' \<mapsto> ''/root'', ''CHROME_PATH'' \<mapsto> ''/usr/bin/chromium''])"
proof -
  have h: "[''HOME'' \<mapsto> ''/root'', ''CHROME_PATH'' \<mapsto> ''/usr/bin/chromium''] ''CHROME_PATH''
             = Some ''/usr/bin/chromium''"
    by simp
  show ?thesis
    using h container_args_base_plus_five
            [of "[''HOME'' \<mapsto> ''/root'', ''CHROME_PATH'' \<mapsto> ''/usr/bin/chromium'']"]
    by blast
qed

text \<open>
  Claim C8: when \<^verbatim>\<open>CHROME_PATH\<close> is unset or holds any value other than
  \<^verbatim>\<open>/usr/bin/chromium\<close>, the output is exactly the seven base flags and nothing else.
\<close>

theorem local_args_are_base:
  assumes "e ''CHROME_PATH'' \<noteq> Some ''/usr/bin/chromium''"
  shows "buildChromeDevToolsArgs e = baseArgs \<and>
         buildChromeDevToolsArgs e =
           [''-y'',
            ''chrome-devtools-mcp@latest'',
            ''--headless'',
            ''--isolated'',
            ''--no-category-emulation'',
            ''--no-category-performance'',
            ''--no-category-network'']"
  using assms by (simp add: buildChromeDevToolsArgs_def isContainer_def baseArgs_def)

theorem local_args_are_base_witness:
  "buildChromeDevToolsArgs Map.empty = baseArgs \<and>
   buildChromeDevToolsArgs [''CHROME_PATH'' \<mapsto> ''/usr/bin/google-chrome''] = baseArgs \<and>
   buildChromeDevToolsArgs [''CHROME_PATH'' \<mapsto> ''/usr/bin/chromium ''] = baseArgs"
proof -
  have h1: "(Map.empty :: process_env) ''CHROME_PATH'' \<noteq> Some ''/usr/bin/chromium''"
    by simp
  have h2: "[''CHROME_PATH'' \<mapsto> ''/usr/bin/google-chrome''] ''CHROME_PATH''
              \<noteq> Some ''/usr/bin/chromium''"
    by simp
  have h3: "[''CHROME_PATH'' \<mapsto> ''/usr/bin/chromium ''] ''CHROME_PATH''
              \<noteq> Some ''/usr/bin/chromium''"
    by simp
  show ?thesis
    using h1 h2 h3
      local_args_are_base [of Map.empty]
      local_args_are_base [of "[''CHROME_PATH'' \<mapsto> ''/usr/bin/google-chrome'']"]
      local_args_are_base [of "[''CHROME_PATH'' \<mapsto> ''/usr/bin/chromium '']"]
    by blast
qed

subsection \<open>Options Assembler\<close>

text \<open>
  Claim C5: the record holds the tool-server launch map (the name \<^verbatim>\<open>chrome-devtools\<close> mapped
  to the launch configuration) exactly when \<^verbatim>\<open>getOptions\<close> is called in standalone mode,
  and every other field is the same in both modes.
\<close>

theorem options_mcpServers_iff_standalone:
  "(mcpServers (getOptions e0 e standalone) \<noteq> None) = standalone \<and>
   mcpServers (getOptions e0 e True) =
     Some [''chrome-devtools'' \<mapsto> CHROME_DEVTOOLS_MCP_CONFIG e0] \<and>
   mcpServers (getOptions e0 e False) = None \<and>
   env (getOptions e0 e True) = env (getOptions e0 e False) \<and>
   systemPrompt (getOptions e0 e True) = systemPrompt (getOptions e0 e False) \<and>
   model (getOptions e0 e True) = model (getOptions e0 e False) \<and>
   allowedTools (getOptions e0 e True) = allowedTools (getOptions e0 e False) \<and>
   maxTurns (getOptions e0 e True) = maxTurns (getOptions e0 e False) \<and>
   (getOptions e0 e True)\<lparr>mcpServers := None\<rparr> = getOptions e0 e False"
  by (simp add: getOptions_def)

text \<open>
  Claim C9: in standalone and in embedded mode alike, the record sets the ceiling on
  the turns of one request, \<^verbatim>\<open>maxTurns\<close>, to exactly 50.
\<close>

theorem options_maxTurns_50:
  "maxTurns (getOptions e0 e True) = 50 \<and>
   maxTurns (getOptions e0 e False) = 50 \<and>
   maxTurns (getOptions e0 e standalone) = 50"
  by (simp add: getOptions_def)

subsection \<open>Generators\<close>

lemma yielded_yieldAll: "yielded (yieldAll xs g) = xs @ yielded g"
  by (induction xs) simp_all

lemma thrown_yieldAll: "thrown (yieldAll xs g) = thrown g"
  by (induction xs) simp_all

lemma yieldAll_append: "yieldAll (xs @ ys) g = yieldAll xs (yieldAll ys g)"
  by (induction xs) simp_all

subsection \<open>The two inner loops\<close>

text \<open>
  The proofs about \<open>textEvents\<close> split on the type and the text of the first block
  before they simplify, so that each \<^theory_text>\<open>if\<close> and \<^theory_text>\<open>case\<close> of the loop body is decided.
\<close>

lemma textEvents_append: "textEvents (bs @ cs) = textEvents bs @ textEvents cs"
  by (induction bs) (simp_all split: option.splits)

lemma textEvents_only_text: "ev \<in> set (textEvents bs) \<Longrightarrow> isText ev"
proof (induction bs)
  case Nil
  then show ?case by simp
next
  case (Cons b bs)
  then show ?case
    by (cases "block_type b = ''text''"; cases "block_text b") (auto split: if_splits)
qed

lemma toolEvents_only_tool: "ev \<in> set (toolEvents bs) \<Longrightarrow> isTool ev"
  by (induction bs) (auto split: if_splits)

lemma Done_notin_textEvents: "DoneEvent \<notin> set (textEvents bs)"
  using textEvents_only_text [of DoneEvent bs] by auto

lemma Done_notin_toolEvents: "DoneEvent \<notin> set (toolEvents bs)"
  using toolEvents_only_tool [of DoneEvent bs] by auto

lemma TextEvent_in_textEvents:
  "TextEvent t \<in> set (textEvents bs) \<longleftrightarrow>
     t \<noteq> [] \<and> (\<exists>b\<in>set bs. block_type b = ''text'' \<and> block_text b = Some t)"
proof (induction bs)
  case Nil
  then show ?case by simp
next
  case (Cons b bs)
  then show ?case
    by (cases "block_type b = ''text''"; cases "block_text b") auto
qed

lemma TextEvent_notin_toolEvents: "TextEvent t \<notin> set (toolEvents bs)"
  using toolEvents_only_tool [of "TextEvent t" bs] by auto

lemma filter_isText_textEvents: "filter isText (textEvents bs) = textEvents bs"
proof (induction bs)
  case Nil
  then show ?case by simp
next
  case (Cons b bs)
  then show ?case
    by (cases "block_type b = ''text''"; cases "block_text b") simp_all
qed

lemma filter_isText_toolEvents: "filter isText (toolEvents bs) = []"
  by (induction bs) simp_all

lemma filter_isTool_textEvents: "filter isTool (textEvents bs) = []"
proof (induction bs)
  case Nil
  then show ?case by simp
next
  case (Cons b bs)
  then show ?case
    by (cases "block_type b = ''text''"; cases "block_text b") simp_all
qed

lemma filter_isTool_toolEvents:
  "filter isTool (toolEvents bs) =
     map (\<lambda>b. ToolEvent (block_name b)) (filter (\<lambda>b. block_type b = ''tool_use'') bs)"
  by (induction bs) simp_all

lemma filter_isUsage_textEvents: "filter isUsage (textEvents bs) = []"
proof (induction bs)
  case Nil
  then show ?case by simp
next
  case (Cons b bs)
  then show ?case
    by (cases "block_type b = ''text''"; cases "block_text b") simp_all
qed

lemma filter_isUsage_toolEvents: "filter isUsage (toolEvents bs) = []"
  by (induction bs) simp_all

lemma textEvents_input_irrelevant:
  "textEvents (map (\<lambda>b. b\<lparr>block_input := f b\<rparr>) bs) = textEvents bs"
  by (induction bs) simp_all

lemma toolEvents_input_irrelevant:
  "toolEvents (map (\<lambda>b. b\<lparr>block_input := f b\<rparr>) bs) = toolEvents bs"
  by (induction bs) simp_all

lemma textEvents_skip_empty:
  "block_text b = Some [] \<Longrightarrow> textEvents (bs1 @ b # bs2) = textEvents (bs1 @ bs2)"
  by (simp add: textEvents_append)

subsection \<open>One message\<close>

lemma orZero_Some: "orZero (Some n) = n"
  by (simp add: orZero_def)

lemma orZero_None: "orZero None = 0"
  by (simp add: orZero_def)

lemma Done_notin_relayMessage: "DoneEvent \<notin> set (relayMessage m)"
  by (cases "msg_type m = ''assistant''"; cases "messageContent m";
      cases "messageUsage m"; cases "msg_result m")
     (simp_all add: relayMessage_def Done_notin_textEvents Done_notin_toolEvents)

lemma TextEvent_in_relayMessage:
  "TextEvent t \<in> set (relayMessage m) \<longleftrightarrow>
     msg_type m = ''assistant'' \<and>
     (\<exists>bs. messageContent m = Some bs \<and> TextEvent t \<in> set (textEvents bs))"
  by (cases "msg_type m = ''assistant''"; cases "messageContent m";
      cases "messageUsage m"; cases "msg_result m")
     (simp_all add: relayMessage_def TextEvent_notin_toolEvents)

lemma filter_isText_relayMessage:
  "filter isText (relayMessage m) =
     (if msg_type m = ''assistant'' then
        (case messageContent m of None \<Rightarrow> [] | Some bs \<Rightarrow> textEvents bs)
      else [])"
  by (cases "msg_type m = ''assistant''"; cases "messageContent m";
      cases "messageUsage m"; cases "msg_result m")
     (simp_all add: relayMessage_def filter_isText_textEvents filter_isText_toolEvents)

lemma filter_isUsage_relayMessage:
  "filter isUsage (relayMessage m) =
     (case messageUsage m of
        None \<Rightarrow> []
      | Some u \<Rightarrow> [UsageEvent (orZero (input_tokens u)) (orZero (output_tokens u))])"
  by (cases "msg_type m = ''assistant''"; cases "messageContent m";
      cases "messageUsage m"; cases "msg_result m")
     (simp_all add: relayMessage_def filter_isUsage_textEvents filter_isUsage_toolEvents)

text \<open>
  Both inner loops stand behind the test \<^verbatim>\<open>message.type === "assistant"\<close>: a message of any
  other type yields neither text nor tool events, whatever its content.
\<close>

lemma no_block_events_unless_assistant:
  "msg_type m \<noteq> ''assistant'' \<Longrightarrow>
     filter isText (relayMessage m) = [] \<and> filter isTool (relayMessage m) = []"
  by (cases "messageUsage m"; cases "msg_result m") (simp_all add: relayMessage_def)

lemma relayMessage_texts:
  "t1 \<noteq> [] \<Longrightarrow> t2 \<noteq> [] \<Longrightarrow>
     relayMessage (assistantMessage [textBlock t1, textBlock t2]) = [TextEvent t1, TextEvent t2]"
  by (simp add: relayMessage_def assistantMessage_def textBlock_def messageContent_def
        messageUsage_def)

lemma relayMessage_tool:
  "relayMessage (assistantMessage [toolUseBlock n args]) = [ToolEvent (Some n)]"
  by (simp add: relayMessage_def assistantMessage_def toolUseBlock_def messageContent_def
        messageUsage_def)

lemma relayMessage_usage:
  "relayMessage (usageMessage ty i out) = [UsageEvent (orZero i) (orZero out)]"
  by (simp add: relayMessage_def usageMessage_def messageContent_def messageUsage_def)

lemma relayMessage_result:
  "r \<noteq> [] \<Longrightarrow> relayMessage (resultMessage r) = [ResultEvent r]"
  by (simp add: relayMessage_def resultMessage_def messageContent_def messageUsage_def)

subsection \<open>The whole stream\<close>

lemma thrown_relay: "thrown (relay g) = thrown g"
  by (induction g) (simp_all add: thrown_yieldAll)

lemma yielded_relay_throw:
  "thrown g = Some x \<Longrightarrow> yielded (relay g) = concat (map relayMessage (yielded g))"
  by (induction g) (simp_all add: yielded_yieldAll)

lemma yielded_relay_return:
  "thrown g = None \<Longrightarrow> yielded (relay g) = concat (map relayMessage (yielded g)) @ [DoneEvent]"
  by (induction g) (simp_all add: yielded_yieldAll)

lemma relay_throw_shape:
  "thrown g = Some x \<Longrightarrow>
     relay g = yieldAll (concat (map relayMessage (yielded g))) (Throw x)"
  by (induction g) (simp_all add: yieldAll_append)

lemma Done_notin_concat: "DoneEvent \<notin> set (concat (map relayMessage ms))"
  by (induction ms) (simp_all add: Done_notin_relayMessage)

lemma count_Done_concat: "count_list (concat (map relayMessage ms)) DoneEvent = 0"
  using Done_notin_concat by (simp add: count_list_0_iff)

lemma yielded_simulatedStream:
  "concat (map relayMessage (yielded simulatedStream)) =
     [TextEvent ''Searching AllRecipes'',
      TextEvent ''for lasagna'',
      ToolEvent (Some ''mcp__chrome-devtools__navigate_page''),
      UsageEvent 10 5,
      ResultEvent ''Found 3 recipes'']"
  by (simp add: simulatedStream_def relayMessage_texts relayMessage_tool relayMessage_usage
        relayMessage_result orZero_Some)

subsection \<open>Event Relay\<close>

text \<open>
  Claim C2: when the runtime sends one message with two text blocks (with non-empty
  texts \<open>t1\<close> and \<open>t2\<close>), one message with one tool-invocation block, one message
  with the usage counters input 10 and output 5, and one message with the result
  \<^verbatim>\<open>Found 3 recipes\<close>, and then ends, the relay yields exactly text, text, tool,
  usage(10,5), result(\<^verbatim>\<open>Found 3 recipes\<close>), done, in that order, and returns.
\<close>

theorem simulated_sequence_events:
  assumes "t1 \<noteq> []" and "t2 \<noteq> []"
    and "query prompt (getOptions e0 e True) =
           Yield (assistantMessage [textBlock t1, textBlock t2])
             (Yield (assistantMessage [toolUseBlock n args])
               (Yield (usageMessage ty (Some 10) (Some 5))
                 (Yield (resultMessage ''Found 3 recipes'') Return)))"
  shows "streamAgent query e0 e prompt =
           Yield (TextEvent t1)
             (Yield (TextEvent t2)
               (Yield (ToolEvent (Some n))
                 (Yield (UsageEvent 10 5)
                   (Yield (ResultEvent ''Found 3 recipes'')
                     (Yield DoneEvent Return)))))"
  using assms
  by (simp add: streamAgent_def relayMessage_texts relayMessage_tool relayMessage_usage
        relayMessage_result orZero_Some)

theorem simulated_sequence_events_witness:
  "streamAgent (\<lambda>p opts. simulatedStream) Map.empty Map.empty ''lasagna'' =
     Yield (TextEvent ''Searching AllRecipes'')
       (Yield (TextEvent ''for lasagna'')
         (Yield (ToolEvent (Some ''mcp__chrome-devtools__navigate_page''))
           (Yield (UsageEvent 10 5)
             (Yield (ResultEvent ''Found 3 recipes'')
               (Yield DoneEvent Return)))))"
proof -
  have h1: "''Searching AllRecipes'' \<noteq> []" and h2: "''for lasagna'' \<noteq> []"
    by simp_all
  have h3: "(\<lambda>p opts. simulatedStream) ''lasagna'' (getOptions Map.empty Map.empty True) =
           Yield (assistantMessage [textBlock ''Searching AllRecipes'', textBlock ''for lasagna''])
             (Yield (assistantMessage
                      [toolUseBlock ''mcp__chrome-devtools__navigate_page''
                         (JObj [(''url'', JStr ''https://www.allrecipes.com'')])])
               (Yield (usageMessage ''assistant'' (Some 10) (Some 5))
                 (Yield (resultMessage ''Found 3 recipes'') Return)))"
    by (simp add: simulatedStream_def)
  show ?thesis
    by (rule simulated_sequence_events [OF h1 h2 h3])
qed

text \<open>
  Claim C3: when the runtime's stream throws, the relay throws the same error, after the
  events of the messages that came before it and nothing else, and it never yields
  \<^verbatim>\<open>done\<close>; when the stream throws before any message, the relay throws at once, having
  yielded no event.
\<close>

theorem runtime_failure_propagates:
  assumes "thrown (query prompt (getOptions e0 e True)) = Some x"
  shows "streamAgent query e0 e prompt =
           yieldAll (concat (map relayMessage (yielded (query prompt (getOptions e0 e True)))))
             (Throw x) \<and>
         thrown (streamAgent query e0 e prompt) = Some x \<and>
         DoneEvent \<notin> set (yielded (streamAgent query e0 e prompt)) \<and>
         (yielded (query prompt (getOptions e0 e True)) = [] \<longrightarrow>
            streamAgent query e0 e prompt = Throw x \<and>
            yielded (streamAgent query e0 e prompt) = [])"
proof -
  let ?g = "query prompt (getOptions e0 e True)"
  have shape: "relay ?g = yieldAll (concat (map relayMessage (yielded ?g))) (Throw x)"
    using assms by (rule relay_throw_shape)
  have evs: "yielded (relay ?g) = concat (map relayMessage (yielded ?g))"
    using assms by (rule yielded_relay_throw)
  have "thrown (relay ?g) = Some x"
    using assms by (simp add: thrown_relay)
  moreover have "DoneEvent \<notin> set (yielded (relay ?g))"
    unfolding evs by (rule Done_notin_concat)
  moreover have "yielded ?g = [] \<longrightarrow> relay ?g = Throw x \<and> yielded (relay ?g) = []"
    using shape by simp
  ultimately show ?thesis
    using shape by (simp add: streamAgent_def)
qed

theorem runtime_failure_propagates_witness:
  "streamAgent (\<lambda>p opts. Throw ''ECONNRESET'') Map.empty Map.empty ''pasta''
     = Throw ''ECONNRESET'' \<and>
   yielded (streamAgent (\<lambda>p opts. Throw ''ECONNRESET'') Map.empty Map.empty ''pasta'') = [] \<and>
   streamAgent (\<lambda>p opts. Yield (assistantMessage [toolUseBlock ''click'' JNull])
                   (Throw ''ECONNRESET'')) Map.empty Map.empty ''pasta''
     = Yield (ToolEvent (Some ''click'')) (Throw ''ECONNRESET'')"
proof -
  have h: "thrown ((\<lambda>p opts. Throw ''ECONNRESET'' :: (sdk_message, string) gen) ''pasta''
             (getOptions Map.empty Map.empty True)) = Some ''ECONNRESET''"
    by simp
  have n: "yielded ((\<lambda>p opts. Throw ''ECONNRESET'' :: (sdk_message, string) gen) ''pasta''
             (getOptions Map.empty Map.empty True)) = []"
    by simp
  have h': "thrown ((\<lambda>p opts. Yield (assistantMessage [toolUseBlock ''click'' JNull])
                       (Throw ''ECONNRESET'')) ''pasta''
             (getOptions Map.empty Map.empty True)) = Some ''ECONNRESET''"
    by simp
  have first: "streamAgent (\<lambda>p opts. Throw ''ECONNRESET'') Map.empty Map.empty ''pasta''
                 = Throw ''ECONNRESET'' \<and>
               yielded (streamAgent (\<lambda>p opts. Throw ''ECONNRESET'') Map.empty Map.empty ''pasta'')
                 = []"
    using h n runtime_failure_propagates
            [of "\<lambda>p opts. Throw ''ECONNRESET''" "''pasta''" Map.empty Map.empty "''ECONNRESET''"]
    by simp
  have second: "streamAgent (\<lambda>p opts. Yield (assistantMessage [toolUseBlock ''click'' JNull])
                   (Throw ''ECONNRESET'')) Map.empty Map.empty ''pasta''
     = Yield (ToolEvent (Some ''click'')) (Throw ''ECONNRESET'')"
    using h' runtime_failure_propagates
            [of "\<lambda>p opts. Yield (assistantMessage [toolUseBlock ''click'' JNull])
                   (Throw ''ECONNRESET'')" "''pasta''" Map.empty Map.empty "''ECONNRESET''"]
    by (simp add: relayMessage_tool)
  from first second show ?thesis by simp
qed

text \<open>
  Claim C4: when the runtime's stream ends without throwing, whatever its messages were,
  the relay yields the events of the messages and then \<^verbatim>\<open>done\<close>, and returns: \<^verbatim>\<open>done\<close>
  occurs exactly once among the events, and it is the last one.
\<close>

theorem completed_stream_ends_with_one_done:
  assumes "thrown (query prompt (getOptions e0 e True)) = None"
  shows "yielded (streamAgent query e0 e prompt) =
           concat (map relayMessage (yielded (query prompt (getOptions e0 e True))))
             @ [DoneEvent] \<and>
         thrown (streamAgent query e0 e prompt) = None \<and>
         count_list (yielded (streamAgent query e0 e prompt)) DoneEvent = 1 \<and>
         last (yielded (streamAgent query e0 e prompt)) = DoneEvent"
proof -
  let ?g = "query prompt (getOptions e0 e True)"
  have evs: "yielded (relay ?g) = concat (map relayMessage (yielded ?g)) @ [DoneEvent]"
    using assms by (rule yielded_relay_return)
  have "thrown (relay ?g) = None"
    using assms by (simp add: thrown_relay)
  moreover have "count_list (yielded (relay ?g)) DoneEvent = 1"
    unfolding evs by (simp add: count_Done_concat)
  moreover have "last (yielded (relay ?g)) = DoneEvent"
    unfolding evs by simp
  ultimately show ?thesis
    using evs by (simp add: streamAgent_def)
qed

theorem completed_stream_ends_with_one_done_witness:
  "yielded (streamAgent (\<lambda>p opts. Return :: (sdk_message, string) gen)
      Map.empty Map.empty ''soup'') = [DoneEvent] \<and>
   yielded (streamAgent (\<lambda>p opts. simulatedStream) Map.empty Map.empty ''soup'') =
     [TextEvent ''Searching AllRecipes'',
      TextEvent ''for lasagna'',
      ToolEvent (Some ''mcp__chrome-devtools__navigate_page''),
      UsageEvent 10 5,
      ResultEvent ''Found 3 recipes'',
      DoneEvent] \<and>
   count_list (yielded (streamAgent (\<lambda>p opts. simulatedStream) Map.empty Map.empty ''soup''))
     DoneEvent = 1"
proof -
  have h: "thrown ((\<lambda>p opts. Return :: (sdk_message, string) gen) ''soup''
             (getOptions Map.empty Map.empty True)) = None"
    by simp
  have h': "thrown ((\<lambda>p opts. simulatedStream) ''soup''
             (getOptions Map.empty Map.empty True)) = None"
    by (simp add: simulatedStream_def)
  have first: "yielded (streamAgent (\<lambda>p opts. Return :: (sdk_message, string) gen)
      Map.empty Map.empty ''soup'') = [DoneEvent]"
    using h completed_stream_ends_with_one_done
            [of "\<lambda>p opts. Return :: (sdk_message, string) gen" "''soup''" Map.empty Map.empty]
    by simp
  have second: "yielded (streamAgent (\<lambda>p opts. simulatedStream) Map.empty Map.empty ''soup'') =
     concat (map relayMessage (yielded simulatedStream)) @ [DoneEvent] \<and>
     count_list (yielded (streamAgent (\<lambda>p opts. simulatedStream) Map.empty Map.empty ''soup''))
       DoneEvent = 1"
    using h' completed_stream_ends_with_one_done
            [of "\<lambda>p opts. simulatedStream" "''soup''" Map.empty Map.empty]
    by blast
  from first second show ?thesis
    by (simp add: yielded_simulatedStream)
qed

text \<open>
  Claim C6: when a message carries usage counters of which exactly one is absent, the
  relay yields one usage event for it, with zero in place of the absent counter and the
  present counter as the message carries it.
\<close>

theorem usage_missing_counter_is_zero:
  assumes "messageUsage m = Some u"
  shows "(input_tokens u = Some n \<and> output_tokens u = None \<longrightarrow>
            filter isUsage (relayMessage m) = [UsageEvent n 0]) \<and>
         (input_tokens u = None \<and> output_tokens u = Some n \<longrightarrow>
            filter isUsage (relayMessage m) = [UsageEvent 0 n])"
  using assms by (simp add: filter_isUsage_relayMessage orZero_Some orZero_None)

theorem usage_missing_counter_is_zero_witness:
  "filter isUsage (relayMessage (usageMessage ''assistant'' (Some 10) None))
     = [UsageEvent 10 0] \<and>
   filter isUsage (relayMessage (usageMessage ''assistant'' None (Some 5)))
     = [UsageEvent 0 5]"
proof -
  have h1: "messageUsage (usageMessage ''assistant'' (Some 10) None) =
              Some \<lparr> input_tokens = Some 10, output_tokens = None \<rparr>"
    by (simp add: messageUsage_def usageMessage_def)
  have h2: "messageUsage (usageMessage ''assistant'' None (Some 5)) =
              Some \<lparr> input_tokens = None, output_tokens = Some 5 \<rparr>"
    by (simp add: messageUsage_def usageMessage_def)
  have first: "filter isUsage (relayMessage (usageMessage ''assistant'' (Some 10) None))
     = [UsageEvent 10 0]"
    using usage_missing_counter_is_zero [OF h1, of 10] by simp
  have second: "filter isUsage (relayMessage (usageMessage ''assistant'' None (Some 5)))
     = [UsageEvent 0 5]"
    using usage_missing_counter_is_zero [OF h2, of 5] by simp
  from first second show ?thesis by simp
qed

text \<open>
  Claim C7, as the specification words it: every message that carries tool-invocation
  blocks yields one tool event per block. The source reads the content blocks only behind
  the test \<^verbatim>\<open>message.type === "assistant"\<close>, so a message of type \<^verbatim>\<open>user\<close> that carries one
  tool-invocation block yields no event at all, and in particular not the tool event of
  that block.
\<close>

theorem user_message_tool_block_yields_no_tool_event:
  "messageContent userToolMessage =
     Some [toolUseBlock ''mcp__chrome-devtools__click'' (JObj [(''uid'', JStr ''1_7'')])] \<and>
   block_type (toolUseBlock ''mcp__chrome-devtools__click'' (JObj [(''uid'', JStr ''1_7'')]))
     = ''tool_use'' \<and>
   relayMessage userToolMessage = [] \<and>
   filter isTool (relayMessage userToolMessage)
     \<noteq> [ToolEvent (Some ''mcp__chrome-devtools__click'')]"
  by (simp add: relayMessage_def userToolMessage_def messageContent_def messageUsage_def
        toolUseBlock_def)

text \<open>
  Claim C7, amended: for every message of type \<^verbatim>\<open>assistant\<close> that carries content blocks,
  the tool events the relay yields are one per block of type \<^verbatim>\<open>tool_use\<close>, in the order of
  the blocks, each holding the name of its block; the arguments of the blocks have no part
  in the events, since replacing them by any others leaves the events of the message
  unchanged.
\<close>

theorem tool_events_name_only:
  assumes "msg_type m = ''assistant''" and "msg_message m = Some a" and "content a = Some bs"
  shows "filter isTool (relayMessage m) =
           map (\<lambda>b. ToolEvent (block_name b)) (filter (\<lambda>b. block_type b = ''tool_use'') bs) \<and>
         relayMessage
           (m\<lparr>msg_message :=
                Some (a\<lparr>content := Some (map (\<lambda>b. b\<lparr>block_input := f b\<rparr>) bs)\<rparr>)\<rparr>)
           = relayMessage m"
proof -
  have c: "messageContent m = Some bs"
    using assms by (simp add: messageContent_def)
  have "filter isTool (relayMessage m) =
           map (\<lambda>b. ToolEvent (block_name b)) (filter (\<lambda>b. block_type b = ''tool_use'') bs)"
    using assms(1) c
    by (cases "messageUsage m"; cases "msg_result m")
       (simp_all add: relayMessage_def filter_isTool_textEvents filter_isTool_toolEvents)
  moreover have "relayMessage
           (m\<lparr>msg_message :=
                Some (a\<lparr>content := Some (map (\<lambda>b. b\<lparr>block_input := f b\<rparr>) bs)\<rparr>)\<rparr>)
           = relayMessage m"
    using assms
    by (simp add: relayMessage_def messageContent_def messageUsage_def
          textEvents_input_irrelevant toolEvents_input_irrelevant)
  ultimately show ?thesis by simp
qed

theorem tool_events_name_only_witness:
  "filter isTool
     (relayMessage (assistantMessage
        [toolUseBlock ''mcp__chrome-devtools__fill'' (JObj [(''value'', JStr ''lasagna'')]),
         textBlock ''Submitting the search'',
         toolUseBlock ''mcp__chrome-devtools__press_key'' (JObj [(''key'', JStr ''Enter'')])]))
     = [ToolEvent (Some ''mcp__chrome-devtools__fill''),
        ToolEvent (Some ''mcp__chrome-devtools__press_key'')]"
proof -
  let ?bs = "[toolUseBlock ''mcp__chrome-devtools__fill'' (JObj [(''value'', JStr ''lasagna'')]),
         textBlock ''Submitting the search'',
         toolUseBlock ''mcp__chrome-devtools__press_key'' (JObj [(''key'', JStr ''Enter'')])]"
  have h1: "msg_type (assistantMessage ?bs) = ''assistant''"
    by (simp add: assistantMessage_def)
  have h2: "msg_message (assistantMessage ?bs) = Some \<lparr> content = Some ?bs, usage = None \<rparr>"
    by (simp add: assistantMessage_def)
  have h3: "content \<lparr> content = Some ?bs, usage = None \<rparr> = Some ?bs"
    by simp
  show ?thesis
    using tool_events_name_only [OF h1 h2 h3]
    by (simp add: toolUseBlock_def textBlock_def)
qed

text \<open>
  Claim C10: a content block whose text is the empty string yields no text event: the
  text events of the message are those of the message without that block, no text event
  holds the empty string, and every text event holds the non-empty text of some other
  block of type \<^verbatim>\<open>text\<close>.
\<close>

theorem empty_text_block_yields_no_text_event:
  assumes "msg_message m = Some a" and "content a = Some (bs1 @ b # bs2)"
    and "block_text b = Some []"
  shows "filter isText (relayMessage m) =
           filter isText
             (relayMessage (m\<lparr>msg_message := Some (a\<lparr>content := Some (bs1 @ bs2)\<rparr>)\<rparr>)) \<and>
         TextEvent [] \<notin> set (relayMessage m) \<and>
         (\<forall>t. TextEvent t \<in> set (relayMessage m) \<longrightarrow>
            t \<noteq> [] \<and>
            (\<exists>c\<in>set (bs1 @ bs2). block_type c = ''text'' \<and> block_text c = Some t))"
proof -
  have c: "messageContent m = Some (bs1 @ b # bs2)"
    using assms by (simp add: messageContent_def)
  have skip: "textEvents (bs1 @ b # bs2) = textEvents (bs1 @ bs2)"
    using assms(3) by (rule textEvents_skip_empty)
  have "filter isText (relayMessage m) =
           filter isText
             (relayMessage (m\<lparr>msg_message := Some (a\<lparr>content := Some (bs1 @ bs2)\<rparr>)\<rparr>))"
    using c skip by (simp add: filter_isText_relayMessage messageContent_def)
  moreover have "TextEvent [] \<notin> set (relayMessage m)"
    by (simp add: TextEvent_in_relayMessage TextEvent_in_textEvents)
  moreover have "\<forall>t. TextEvent t \<in> set (relayMessage m) \<longrightarrow>
            t \<noteq> [] \<and>
            (\<exists>c\<in>set (bs1 @ bs2). block_type c = ''text'' \<and> block_text c = Some t)"
    using c skip TextEvent_in_textEvents [of _ "bs1 @ bs2"]
    by (simp add: TextEvent_in_relayMessage)
  ultimately show ?thesis by simp
qed

theorem empty_text_block_yields_no_text_event_witness:
  "relayMessage (assistantMessage [textBlock ''Here is'', textBlock [], textBlock ''a recipe''])
     = [TextEvent ''Here is'', TextEvent ''a recipe''] \<and>
   TextEvent [] \<notin>
     set (relayMessage
            (assistantMessage [textBlock ''Here is'', textBlock [], textBlock ''a recipe'']))"
proof -
  let ?m = "assistantMessage [textBlock ''Here is'', textBlock [], textBlock ''a recipe'']"
  let ?a = "\<lparr> content = Some ([textBlock ''Here is''] @ textBlock [] # [textBlock ''a recipe'']),
              usage = None \<rparr>"
  have h1: "msg_message ?m = Some ?a"
    by (simp add: assistantMessage_def)
  have h2: "content ?a = Some ([textBlock ''Here is''] @ textBlock [] # [textBlock ''a recipe''])"
    by simp
  have h3: "block_text (textBlock []) = Some []"
    by (simp add: textBlock_def)
  have ev: "relayMessage ?m = [TextEvent ''Here is'', TextEvent ''a recipe'']"
    by (simp add: relayMessage_def assistantMessage_def textBlock_def messageContent_def
          messageUsage_def)
  have "TextEvent [] \<notin> set (relayMessage ?m)"
    using empty_text_block_yields_no_text_event [OF h1 h2 h3] by blast
  with ev show ?thesis by blast
qed

end
